theory Spec2Isabelle
  imports Main
begin

section \<open>The regular plugin of MCDReforged: data model\<close>

text \<open>
  A shallow embedding of \<^verbatim>\<open>src/mcdreforged/plugin/regular_plugin.py\<close>.
  The class \<^verbatim>\<open>RegularPlugin\<close> becomes a record, each method a function that
  takes the world (file system, \<^verbatim>\<open>sys.modules\<close>, logger) and the plugin and returns
  the outcome together with the updated world and plugin. A raised exception is the
  \<open>Inl\<close> branch of the outcome. The global lock is not represented: the
  embedding is sequential.
\<close>

subsection \<open>Python values, modules and exceptions\<close>

text \<open>
  The attribute values of a loaded module, as far as the plugin inspects them:
  \<^verbatim>\<open>callable(func)\<close> holds of functions only.
\<close>

datatype py_value = PyNone | PyFunction string | PyData string

datatype py_module = Module (attributes: "(string \<times> py_value) list")

datatype py_exception = IllegalCallError | KeyError | LoadException string

fun callable :: "py_value \<Rightarrow> bool" where
  "callable (PyFunction f) = True"
| "callable v = False"

text \<open>
  \<^verbatim>\<open>getattr(obj, name, None)\<close> where \<^verbatim>\<open>obj\<close> is a module or
  \<^verbatim>\<open>None\<close>. The names looked up by the plugin (\<^verbatim>\<open>PLUGIN_METADATA\<close> and the
  handler names of events) are not attributes of Python's \<^verbatim>\<open>None\<close> object, so the
  lookup on \<^verbatim>\<open>None\<close> gives the default.
\<close>

fun getattr_default :: "py_module option \<Rightarrow> string \<Rightarrow> py_value" where
  "getattr_default None name = PyNone"
| "getattr_default (Some m) name =
     (case map_of (attributes m) name of None \<Rightarrow> PyNone | Some v \<Rightarrow> v)"

subsection \<open>Plugin states, events and listeners\<close>

datatype plugin_state = UNINITIALIZED | LOADED | READY | UNLOADING | UNLOADED

record plugin_event =
  event_id :: string
  default_method_name :: "string option"

text \<open>
  \<^verbatim>\<open>EventListener(self, func, priority)\<close>: the owning plugin is named by its
  file path.
\<close>

datatype event_listener =
  EventListener (listener_plugin: string) (callback: py_value) (priority: int)

subsection \<open>The world outside the plugin\<close>

type_synonym bytes = string

type_synonym plugin_repr = "string \<times> string \<times> plugin_state"

datatype log_level = DEBUG | CRITICAL

text \<open>
  The four messages the plugin hands to \<^verbatim>\<open>mcdr_server.logger\<close>, each with the
  values its format string receives.
\<close>

datatype log_message =
    Plugin_loaded plugin_repr string "string option"
  | Plugin_reloaded plugin_repr "string option"
  | Module_not_found string plugin_repr
  | Removed_module string plugin_repr

type_synonym log_record = "log_level \<times> log_message"

text \<open>
  \<open>files\<close> maps a path to the bytes of the regular file there;
  \<open>sys_modules\<close> is the dictionary \<^verbatim>\<open>sys.modules\<close> in insertion order, the order
  in which Python iterates it; \<open>log\<close> is the sequence of records given to the logger.
  Reading an existing file does not fail in this model.
\<close>

record world =
  files :: "string \<rightharpoonup> bytes"
  sys_modules :: "(string \<times> py_module) list"
  log :: "log_record list"

definition dict_keys :: "('k \<times> 'v) list \<Rightarrow> 'k list" where
  "dict_keys d = map fst d"

text \<open>\<^verbatim>\<open>d.pop(k)\<close>: removes the entry and returns its value, or raises KeyError.\<close>

definition dict_pop :: "('k \<times> 'v) list \<Rightarrow> 'k \<Rightarrow> py_exception + 'v \<times> ('k \<times> 'v) list" where
  "dict_pop d k =
     (case map_of d k of
        None \<Rightarrow> Inl KeyError
      | Some v \<Rightarrow> Inr (v, filter (\<lambda>kv. fst kv \<noteq> k) d))"

definition logger :: "log_level \<Rightarrow> log_message \<Rightarrow> world \<Rightarrow> world" where
  "logger lvl msg w = w\<lparr>log := log w @ [(lvl, msg)]\<rparr>"

subsection \<open>The plugin object\<close>

text \<open>
  The fields of \<^verbatim>\<open>RegularPlugin\<close>. \<open>state\<close> and \<open>plugin_registry\<close> are
  inherited from \<^verbatim>\<open>AbstractPlugin\<close>; the registry is represented by its listener
  collection. The type \<open>'m\<close> is that of the objects the \<^verbatim>\<open>MetaData\<close> class
  constructs.
\<close>

record 'm plugin =
  file_path :: string
  file_name :: string
  file_hash :: "string option"
  module_instance :: "py_module option"
  old_module_instance :: "py_module option"
  newly_loaded_module :: "string list"
  metadata :: "'m option"
  state :: plugin_state
  plugin_registry :: "(plugin_event \<times> event_listener) list"

type_synonym 'm outcome = "(py_exception + unit) \<times> world \<times> 'm plugin"

text \<open>
  The collaborators that are not part of this file are parameters of the operations:
  \<^item> \<open>sha256\<close>: \<^verbatim>\<open>hashlib.sha256(bytes).hexdigest()\<close>;
  \<^item> \<open>load_source\<close>: \<^verbatim>\<open>misc_util.load_source(path)\<close>, which runs the plugin's code,
    may change the world in any way, and returns the module or raises;
  \<^item> \<open>MetaData\<close>: the constructor \<^verbatim>\<open>MetaData(plugin, data)\<close>;
  \<^item> \<open>event_list\<close>: \<^verbatim>\<open>MCDRPluginEvents.get_event_list()\<close>;
  \<^item> \<open>prio\<close>: the constant \<^verbatim>\<open>DEFAULT_LISTENER_PRIORITY\<close>.
\<close>

type_synonym loader = "string \<Rightarrow> world \<Rightarrow> (py_exception + py_module) \<times> world"

definition init :: "string \<Rightarrow> string \<Rightarrow> 'm plugin" where
  "init path name =
     \<lparr>file_path = path, file_name = name, file_hash = None, module_instance = None,
      old_module_instance = None, newly_loaded_module = [], metadata = None,
      state = UNINITIALIZED, plugin_registry = []\<rparr>"

definition repr :: "'m plugin \<Rightarrow> plugin_repr" where
  "repr p = (file_name p, file_path p, state p)"

subsection \<open>Operations of the base class\<close>

text \<open>
  Modelled from the spec: \<^verbatim>\<open>AbstractPlugin.assert_state\<close> is not part of the
  source file. Section 6: \<^verbatim>\<open>assertState(allowedSet)\<close> fails with IllegalCall on
  violation.
\<close>

definition assert_state :: "plugin_state set \<Rightarrow> 'm plugin \<Rightarrow> py_exception + unit" where
  "assert_state allowed p = (if state p \<in> allowed then Inr () else Inl IllegalCallError)"

text \<open>
  Modelled from the spec: \<^verbatim>\<open>AbstractPlugin.set_state\<close> is not part of the source
  file. Section 6: \<^verbatim>\<open>setState(newState)\<close> records the transition.
\<close>

definition set_state :: "plugin_state \<Rightarrow> 'm plugin \<Rightarrow> 'm plugin" where
  "set_state s p = p\<lparr>state := s\<rparr>"

text \<open>
  Modelled from the spec: \<^verbatim>\<open>AbstractPlugin.add_event_listener\<close> and
  \<^verbatim>\<open>plugin_registry.clear\<close> are not part of the source file. Section 6: the
  listener collection is per plugin and exposes \<^verbatim>\<open>add(event, listener)\<close> and
  \<^verbatim>\<open>clear()\<close>.
\<close>

definition add_event_listener :: "plugin_event \<Rightarrow> event_listener \<Rightarrow> 'm plugin \<Rightarrow> 'm plugin" where
  "add_event_listener ev l p = p\<lparr>plugin_registry := plugin_registry p @ [(ev, l)]\<rparr>"

definition plugin_registry_clear :: "'m plugin \<Rightarrow> 'm plugin" where
  "plugin_registry_clear p = p\<lparr>plugin_registry := []\<rparr>"

section \<open>The methods of RegularPlugin\<close>

text \<open>
  The methods keep their names, with three exceptions forced by the syntax:
  \<^verbatim>\<open>__init__\<close> is \<open>init\<close> (above), \<^verbatim>\<open>__load_instance\<close> is
  \<open>load_instance\<close>, \<^verbatim>\<open>__register_default_listeners\<close> is
  \<open>register_default_listeners\<close>; and \<^verbatim>\<open>remove\<close> is \<open>remove_plugin\<close>,
  since \<open>remove\<close> is a constant of the set library.
\<close>

definition get_metadata :: "'m plugin \<Rightarrow> py_exception + 'm" where
  "get_metadata p = (case metadata p of None \<Rightarrow> Inl IllegalCallError | Some md \<Rightarrow> Inr md)"

subsection \<open>Plugin file\<close>

definition file_exists :: "world \<Rightarrow> 'm plugin \<Rightarrow> bool" where
  "file_exists w p = (files w (file_path p) \<noteq> None)"

definition get_file_hash :: "(bytes \<Rightarrow> string) \<Rightarrow> world \<Rightarrow> 'm plugin \<Rightarrow> string option" where
  "get_file_hash sha256 w p =
     (if file_exists w p
      then (case files w (file_path p) of Some content \<Rightarrow> Some (sha256 content) | None \<Rightarrow> None)
      else None)"

definition file_changed :: "(bytes \<Rightarrow> string) \<Rightarrow> world \<Rightarrow> 'm plugin \<Rightarrow> bool" where
  "file_changed sha256 w p = (get_file_hash sha256 w p \<noteq> file_hash p)"

subsection \<open>Default listeners\<close>

text \<open>The loop of \<^verbatim>\<open>__register_default_listeners\<close> over the event list.\<close>

fun register_default_listeners ::
  "plugin_event list \<Rightarrow> int \<Rightarrow> 'm plugin \<Rightarrow> 'm plugin" where
  "register_default_listeners [] prio p = p"
| "register_default_listeners (event # events) prio p =
     register_default_listeners events prio
       (case default_method_name event of
          None \<Rightarrow> p
        | Some name \<Rightarrow>
            (let func = getattr_default (module_instance p) name
             in if callable func
                then add_event_listener event (EventListener (file_path p) func prio) p
                else p))"

subsection \<open>Life cycle\<close>

text \<open>
  \<^verbatim>\<open>__load_instance\<close>. The hash is stored first. The \<^verbatim>\<open>finally\<close> clause runs
  on both paths, so \<open>newly_loaded_module\<close> is assigned whether or not
  \<open>load_source\<close> raised; the assignment to \<open>module_instance\<close> and the two
  statements after the lock are reached on success only.
\<close>

definition load_instance ::
  "(bytes \<Rightarrow> string) \<Rightarrow> loader \<Rightarrow> ('m plugin \<Rightarrow> py_value \<Rightarrow> 'm) \<Rightarrow> world \<Rightarrow> 'm plugin \<Rightarrow> 'm outcome" where
  "load_instance sha256 load_source MetaData w p =
     (let p1 = p\<lparr>file_hash := get_file_hash sha256 w p\<rparr>;
          previous_modules = sys_modules w;
          p2 = p1\<lparr>old_module_instance := module_instance p1\<rparr>;
          (r, w') = load_source (file_path p2) w;
          introduced = filter (\<lambda>module. module \<notin> set (dict_keys previous_modules))
                         (dict_keys (sys_modules w'))
      in case r of
           Inl e \<Rightarrow> (Inl e, w', p2\<lparr>newly_loaded_module := introduced\<rparr>)
         | Inr m \<Rightarrow>
             (let p3 = p2\<lparr>module_instance := Some m\<rparr>;
                  p4 = p3\<lparr>newly_loaded_module := introduced\<rparr>;
                  p5 = p4\<lparr>metadata :=
                          Some (MetaData p4 (getattr_default (module_instance p4) ''PLUGIN_METADATA''))\<rparr>
              in (Inr (), w', plugin_registry_clear p5)))"

definition load ::
  "(bytes \<Rightarrow> string) \<Rightarrow> loader \<Rightarrow> ('m plugin \<Rightarrow> py_value \<Rightarrow> 'm) \<Rightarrow> world \<Rightarrow> 'm plugin \<Rightarrow> 'm outcome" where
  "load sha256 load_source MetaData w p =
     (case assert_state {UNINITIALIZED} p of
        Inl e \<Rightarrow> (Inl e, w, p)
      | Inr _ \<Rightarrow>
          (case load_instance sha256 load_source MetaData w p of
             (Inl e, w', p') \<Rightarrow> (Inl e, w', p')
           | (Inr _, w', p') \<Rightarrow>
               (Inr (),
                logger DEBUG (Plugin_loaded (repr p') (file_path p') (file_hash p')) w',
                set_state LOADED p')))"

definition ready :: "plugin_event list \<Rightarrow> int \<Rightarrow> 'm plugin \<Rightarrow> py_exception + 'm plugin" where
  "ready event_list prio p =
     (case assert_state {LOADED, READY} p of
        Inl e \<Rightarrow> Inl e
      | Inr _ \<Rightarrow> Inr (set_state READY (register_default_listeners event_list prio p)))"

definition reload ::
  "(bytes \<Rightarrow> string) \<Rightarrow> loader \<Rightarrow> ('m plugin \<Rightarrow> py_value \<Rightarrow> 'm) \<Rightarrow> world \<Rightarrow> 'm plugin \<Rightarrow> 'm outcome" where
  "reload sha256 load_source MetaData w p =
     (case assert_state {LOADED, READY} p of
        Inl e \<Rightarrow> (Inl e, w, p)
      | Inr _ \<Rightarrow>
          (case load_instance sha256 load_source MetaData w p of
             (Inl e, w', p') \<Rightarrow> (Inl e, w', p')
           | (Inr _, w', p') \<Rightarrow>
               (Inr (), logger DEBUG (Plugin_reloaded (repr p') (file_hash p')) w', p')))"

text \<open>
  The loop of \<^verbatim>\<open>unload\<close> over \<open>newly_loaded_module\<close>: a missing module is
  logged as critical and the loop goes on.
\<close>

fun evict :: "plugin_repr \<Rightarrow> string list \<Rightarrow> world \<Rightarrow> world" where
  "evict r [] w = w"
| "evict r (module # modules) w =
     evict r modules
       (case dict_pop (sys_modules w) module of
          Inl e \<Rightarrow> logger CRITICAL (Module_not_found module r) w
        | Inr (v, d) \<Rightarrow> logger DEBUG (Removed_module module r) (w\<lparr>sys_modules := d\<rparr>))"

definition unload :: "world \<Rightarrow> 'm plugin \<Rightarrow> 'm outcome" where
  "unload w p =
     (case assert_state {UNINITIALIZED, LOADED, READY} p of
        Inl e \<Rightarrow> (Inl e, w, p)
      | Inr _ \<Rightarrow>
          (let w' = evict (repr p) (newly_loaded_module p) w;
               p' = p\<lparr>newly_loaded_module := []\<rparr>
           in (Inr (), w', set_state UNLOADING p')))"

definition remove_plugin :: "'m plugin \<Rightarrow> py_exception + 'm plugin" where
  "remove_plugin p =
     (case assert_state {UNLOADING} p of
        Inl e \<Rightarrow> Inl e
      | Inr _ \<Rightarrow> Inr (set_state UNLOADED p))"

section \<open>The specification's reading of the default listeners\<close>

text \<open>
  Section 4.4 of the specification in its own words: for each event of the catalog, if
  the event declares a default handler name and the loaded unit exposes a callable
  attribute of exactly that name, a listener for it at the default priority.
\<close>

definition default_listeners_spec ::
  "plugin_event list \<Rightarrow> int \<Rightarrow> 'm plugin \<Rightarrow> (plugin_event \<times> event_listener) list" where
  "default_listeners_spec catalog prio p =
     concat (map (\<lambda>event.
       (case default_method_name event of
          None \<Rightarrow> []
        | Some name \<Rightarrow>
            (if callable (getattr_default (module_instance p) name)
             then [(event, EventListener (file_path p) (getattr_default (module_instance p) name) prio)]
             else []))) catalog)"

text \<open>
  The log record that the eviction of one identifier leaves, by whether the identifier is
  in the registry \<open>w\<close>: a debug record for a removed entry, a critical record for a
  missing one.
\<close>

definition eviction_record :: "plugin_repr \<Rightarrow> world \<Rightarrow> string \<Rightarrow> log_record" where
  "eviction_record r w k =
     (if k \<in> set (dict_keys (sys_modules w))
      then (DEBUG, Removed_module k r)
      else (CRITICAL, Module_not_found k r))"

section \<open>A concrete plugin, world and collaborators\<close>

definition ex_sha256 :: "bytes \<Rightarrow> string" where
  "ex_sha256 content = ''sha256:'' @ content"

definition ex_MetaData :: "(string \<times> py_value) plugin \<Rightarrow> py_value \<Rightarrow> string \<times> py_value" where
  "ex_MetaData p data = (file_name p, data)"

definition ex_module :: py_module where
  "ex_module = Module [(''PLUGIN_METADATA'', PyData ''id=a''),
                       (''on_load'', PyFunction ''a.on_load''),
                       (''on_info'', PyData ''not a function'')]"

definition ex_world :: world where
  "ex_world = \<lparr>files = [''plugins/a.py'' \<mapsto> ''print(1)''],
               sys_modules = [(''sys'', Module [])],
               log = []\<rparr>"

text \<open>A load that succeeds and brings in the plugin's module and one dependency.\<close>

definition ex_loader_ok :: loader where
  "ex_loader_ok path w =
     (Inr ex_module, w\<lparr>sys_modules := sys_modules w @ [(''a'', ex_module), (''dep'', Module [])]\<rparr>)"

text \<open>A load that raises after its dependency was imported.\<close>

definition ex_loader_fail :: loader where
  "ex_loader_fail path w =
     (Inl (LoadException ''SyntaxError''), w\<lparr>sys_modules := sys_modules w @ [(''dep'', Module [])]\<rparr>)"

definition ex_plugin :: "(string \<times> py_value) plugin" where
  "ex_plugin = init ''plugins/a.py'' ''a.py''"

definition ex_events :: "plugin_event list" where
  "ex_events =
     [\<lparr>event_id = ''mcdr.plugin_loaded'', default_method_name = Some ''on_load''\<rparr>,
      \<lparr>event_id = ''mcdr.general_info'', default_method_name = Some ''on_info''\<rparr>,
      \<lparr>event_id = ''custom.event'', default_method_name = None\<rparr>]"

text \<open>
  The scenario of an eviction with a missing entry: the plugin recorded
  \<open>A\<close>, \<open>B\<close> and \<open>C\<close>, and \<open>B\<close> is no longer in the registry.
\<close>

definition ex_world_abc :: world where
  "ex_world_abc = \<lparr>files = Map.empty,
                   sys_modules = [(''sys'', Module []), (''A'', Module []), (''C'', Module [])],
                   log = []\<rparr>"

definition ex_plugin_abc :: "(string \<times> py_value) plugin" where
  "ex_plugin_abc =
     (init ''plugins/a.py'' ''a.py'')\<lparr>newly_loaded_module := [''A'', ''B'', ''C''], state := READY\<rparr>"

text \<open>The world and the plugin after \<open>ex_loader_fail\<close> has raised inside a load.\<close>

definition ex_world_failed :: world where
  "ex_world_failed = \<lparr>files = [''plugins/a.py'' \<mapsto> ''print(1)''],
                      sys_modules = [(''sys'', Module []), (''dep'', Module [])],
                      log = []\<rparr>"

definition ex_plugin_failed :: "(string \<times> py_value) plugin" where
  "ex_plugin_failed =
     (init ''plugins/a.py'' ''a.py'')\<lparr>file_hash := Some ''sha256:print(1)'',
                                      newly_loaded_module := [''dep'']\<rparr>"

text \<open>The world and the plugin after a load with \<open>ex_loader_ok\<close>.\<close>

definition ex_world_loaded :: world where
  "ex_world_loaded =
     \<lparr>files = [''plugins/a.py'' \<mapsto> ''print(1)''],
      sys_modules = [(''sys'', Module []), (''a'', ex_module), (''dep'', Module [])],
      log = [(DEBUG, Plugin_loaded (''a.py'', ''plugins/a.py'', UNINITIALIZED) ''plugins/a.py''
                       (Some ''sha256:print(1)''))]\<rparr>"

definition ex_plugin_loaded :: "(string \<times> py_value) plugin" where
  "ex_plugin_loaded =
     \<lparr>file_path = ''plugins/a.py'', file_name = ''a.py'',
      file_hash = Some ''sha256:print(1)'', module_instance = Some ex_module,
      old_module_instance = None, newly_loaded_module = [''a'', ''dep''],
      metadata = Some (''a.py'', PyData ''id=a''), state = LOADED, plugin_registry = []\<rparr>"

text \<open>The source file rewritten after the load.\<close>

definition ex_world_modified :: world where
  "ex_world_modified = ex_world_loaded\<lparr>files := [''plugins/a.py'' \<mapsto> ''print(2)'']\<rparr>"

definition ex_on_load_listener :: "plugin_event \<times> event_listener" where
  "ex_on_load_listener =
     (\<lparr>event_id = ''mcdr.plugin_loaded'', default_method_name = Some ''on_load''\<rparr>,
      EventListener ''plugins/a.py'' (PyFunction ''a.on_load'') 1000)"

section \<open>Properties of the operations\<close>

subsection \<open>The load step, the eviction loop and the listener loop\<close>

lemma get_file_hash_eq: "get_file_hash sha256 w p = map_option sha256 (files w (file_path p))"
  by (simp add: get_file_hash_def file_exists_def split: option.splits)

lemma load_instance_fail:
  assumes "load_source (file_path p) w = (Inl e, w')"
  shows "load_instance digest load_source MetaData w p =
           (Inl e, w',
            p\<lparr>file_hash := get_file_hash digest w p,
              old_module_instance := module_instance p,
              newly_loaded_module :=
                filter (\<lambda>k. k \<notin> set (dict_keys (sys_modules w))) (dict_keys (sys_modules w'))\<rparr>)"
  using assms by (simp add: load_instance_def)

lemma load_instance_ok:
  assumes "load_source (file_path p) w = (Inr m, w')"
  shows "load_instance digest load_source MetaData w p =
           (Inr (), w',
            p\<lparr>file_hash := get_file_hash digest w p,
              old_module_instance := module_instance p,
              module_instance := Some m,
              newly_loaded_module :=
                filter (\<lambda>k. k \<notin> set (dict_keys (sys_modules w))) (dict_keys (sys_modules w')),
              metadata := Some (MetaData
                (p\<lparr>file_hash := get_file_hash digest w p,
                   old_module_instance := module_instance p,
                   module_instance := Some m,
                   newly_loaded_module :=
                     filter (\<lambda>k. k \<notin> set (dict_keys (sys_modules w))) (dict_keys (sys_modules w'))\<rparr>)
                (getattr_default (Some m) ''PLUGIN_METADATA'')),
              plugin_registry := []\<rparr>)"
  using assms by (simp add: load_instance_def plugin_registry_clear_def Let_def)

lemma load_instance_cases:
  obtains (fail) e w' where "load_source (file_path p) w = (Inl e, w')"
  | (ok) m w' where "load_source (file_path p) w = (Inr m, w')"
proof (cases "load_source (file_path p) w")
  case (Pair r w')
  then show ?thesis by (cases r) (auto intro: fail ok)
qed

lemma load_instance_success:
  assumes "load_instance digest load_source MetaData w p = (Inr (), w1, q)"
  shows "\<exists>m. load_source (file_path p) w = (Inr m, w1)
           \<and> q = p\<lparr>file_hash := get_file_hash digest w p,
                    old_module_instance := module_instance p,
                    module_instance := Some m,
                    newly_loaded_module :=
                      filter (\<lambda>k. k \<notin> set (dict_keys (sys_modules w))) (dict_keys (sys_modules w1)),
                    metadata := Some (MetaData
                      (p\<lparr>file_hash := get_file_hash digest w p,
                         old_module_instance := module_instance p,
                         module_instance := Some m,
                         newly_loaded_module :=
                           filter (\<lambda>k. k \<notin> set (dict_keys (sys_modules w))) (dict_keys (sys_modules w1))\<rparr>)
                      (getattr_default (Some m) ''PLUGIN_METADATA'')),
                    plugin_registry := []\<rparr>"
proof (cases rule: load_instance_cases[of load_source p w])
  case (fail e w2)
  from assms load_instance_fail[where load_source=load_source and p=p and w=w and digest=digest and MetaData=MetaData, OF fail]
  show ?thesis by simp
next
  case (ok m w2)
  from assms load_instance_ok[where load_source=load_source and p=p and w=w and digest=digest and MetaData=MetaData, OF ok] ok
  show ?thesis by auto
qed

lemma load_success:
  assumes "load digest load_source MetaData w p = (Inr (), w', p')"
  shows "state p = UNINITIALIZED
       \<and> (\<exists>w1 q. load_instance digest load_source MetaData w p = (Inr (), w1, q)
                  \<and> p' = q\<lparr>state := LOADED\<rparr>
                  \<and> w' = logger DEBUG (Plugin_loaded (repr q) (file_path q) (file_hash q)) w1)"
proof (cases "load_instance digest load_source MetaData w p")
  case (fields r w1 q)
  with assms show ?thesis
    by (cases r) (auto simp: load_def assert_state_def set_state_def split: if_splits)
qed

lemma reload_success:
  assumes "reload digest load_source MetaData w p = (Inr (), w', p')"
  shows "state p \<in> {LOADED, READY}
       \<and> (\<exists>w1. load_instance digest load_source MetaData w p = (Inr (), w1, p')
                \<and> w' = logger DEBUG (Plugin_reloaded (repr p') (file_hash p')) w1)"
proof (cases "load_instance digest load_source MetaData w p")
  case (fields r w1 q)
  with assms show ?thesis
    by (cases r) (auto simp: reload_def assert_state_def split: if_splits)
qed

lemma evict_sys_modules:
  "sys_modules (evict r ks w) = filter (\<lambda>kv. fst kv \<notin> set ks) (sys_modules w)"
proof (induction ks arbitrary: w)
  case Nil
  show ?case by simp
next
  case (Cons k ks)
  show ?case
  proof (cases "map_of (sys_modules w) k")
    case None
    then have "k \<notin> fst ` set (sys_modules w)"
      by (simp add: map_of_eq_None_iff)
    then have "filter (\<lambda>kv. fst kv \<noteq> k \<and> fst kv \<notin> set ks) (sys_modules w)
             = filter (\<lambda>kv. fst kv \<notin> set ks) (sys_modules w)"
      by (intro filter_cong) auto
    with None show ?thesis
      by (simp add: Cons.IH dict_pop_def logger_def)
  next
    case (Some v)
    then show ?thesis
      by (simp add: Cons.IH dict_pop_def logger_def conj_commute)
  qed
qed

lemma evict_log:
  "distinct ks \<Longrightarrow> log (evict r ks w) = log w @ map (eviction_record r w) ks"
proof (induction ks arbitrary: w)
  case Nil
  show ?case by simp
next
  case (Cons k ks)
  let ?w1 = "case dict_pop (sys_modules w) k of
               Inl e \<Rightarrow> logger CRITICAL (Module_not_found k r) w
             | Inr (v, d) \<Rightarrow> logger DEBUG (Removed_module k r) (w\<lparr>sys_modules := d\<rparr>)"
  from Cons.prems have k: "k \<notin> set ks" and d: "distinct ks" by simp_all
  have keys: "\<And>k'. k' \<noteq> k \<Longrightarrow>
      (k' \<in> set (dict_keys (sys_modules ?w1))) = (k' \<in> set (dict_keys (sys_modules w)))"
    by (cases "map_of (sys_modules w) k") (auto simp: dict_pop_def logger_def dict_keys_def)
  have same: "map (eviction_record r ?w1) ks = map (eviction_record r w) ks"
  proof (rule map_cong[OF refl])
    fix k' assume "k' \<in> set ks"
    with k have "k' \<noteq> k" by auto
    then show "eviction_record r ?w1 k' = eviction_record r w k'"
      unfolding eviction_record_def using keys by simp
  qed
  have first: "log ?w1 = log w @ [eviction_record r w k]"
  proof (cases "map_of (sys_modules w) k")
    case None
    then have "k \<notin> set (dict_keys (sys_modules w))"
      by (simp add: map_of_eq_None_iff dict_keys_def)
    with None show ?thesis
      by (simp add: dict_pop_def logger_def eviction_record_def)
  next
    case (Some v)
    then have "k \<in> set (dict_keys (sys_modules w))"
      by (auto simp: dict_keys_def dest: map_of_SomeD intro: image_eqI[where x="(k, v)"])
    with Some show ?thesis
      by (simp add: dict_pop_def logger_def eviction_record_def)
  qed
  have "log (evict r (k # ks) w) = log (evict r ks ?w1)" by simp
  also have "\<dots> = log ?w1 @ map (eviction_record r ?w1) ks" by (rule Cons.IH[OF d])
  finally show ?case by (simp add: first same)
qed

lemma unload_ok:
  assumes "state p \<in> {UNINITIALIZED, LOADED, READY}"
  shows "unload w p =
           (Inr (), evict (repr p) (newly_loaded_module p) w,
            p\<lparr>newly_loaded_module := [], state := UNLOADING\<rparr>)"
  using assms by (simp add: unload_def assert_state_def set_state_def)

lemma register_default_listeners_frame:
  "file_path (register_default_listeners evs prio p) = file_path p
   \<and> module_instance (register_default_listeners evs prio p) = module_instance p
   \<and> state (register_default_listeners evs prio p) = state p"
  by (induction evs arbitrary: p)
     (auto simp: add_event_listener_def Let_def split: option.splits)

lemma default_listeners_spec_frame:
  "module_instance q = module_instance p \<Longrightarrow> file_path q = file_path p
     \<Longrightarrow> default_listeners_spec evs prio q = default_listeners_spec evs prio p"
  by (simp add: default_listeners_spec_def cong: option.case_cong if_cong)

lemma register_default_listeners_registry:
  "plugin_registry (register_default_listeners evs prio p)
     = plugin_registry p @ default_listeners_spec evs prio p"
proof (induction evs arbitrary: p)
  case Nil
  show ?case by (simp add: default_listeners_spec_def)
next
  case (Cons ev evs)
  have frame: "\<And>l. default_listeners_spec evs prio (add_event_listener ev l p)
                  = default_listeners_spec evs prio p"
    by (simp add: default_listeners_spec_def add_event_listener_def cong: option.case_cong if_cong)
  show ?case
    by (cases "default_method_name ev")
       (simp_all add: Cons.IH frame Let_def, simp_all add: default_listeners_spec_def add_event_listener_def)
qed

text \<open>
  The list that the load step records has no repeated identifier when the keys of
  \<open>sys.modules\<close> are distinct, as the keys of a dictionary are.
\<close>

lemma load_instance_introduced_distinct:
  assumes "load_instance digest load_source MetaData w p = (r, w', p')"
    and "distinct (dict_keys (sys_modules (snd (load_source (file_path p) w))))"
  shows "distinct (newly_loaded_module p')"
proof (cases rule: load_instance_cases[of load_source p w])
  case (fail e wl)
  from assms load_instance_fail[where load_source=load_source and p=p and w=w and digest=digest and MetaData=MetaData, OF fail] fail
  show ?thesis by auto
next
  case (ok m wl)
  from assms load_instance_ok[where load_source=load_source and p=p and w=w and digest=digest and MetaData=MetaData, OF ok] ok
  show ?thesis by auto
qed

subsection \<open>The concrete plugin evaluated\<close>

lemmas ex_defs = ex_sha256_def ex_MetaData_def ex_module_def ex_world_def ex_loader_ok_def
  ex_loader_fail_def ex_plugin_def ex_events_def ex_world_abc_def ex_plugin_abc_def
  ex_world_failed_def ex_plugin_failed_def ex_world_loaded_def ex_plugin_loaded_def
  ex_world_modified_def ex_on_load_listener_def init_def

lemmas op_defs = load_def reload_def unload_def ready_def load_instance_def assert_state_def
  set_state_def get_file_hash_def file_exists_def dict_keys_def dict_pop_def logger_def repr_def
  plugin_registry_clear_def add_event_listener_def get_metadata_def file_changed_def
  eviction_record_def

lemma ex_load_ok:
  "load ex_sha256 ex_loader_ok ex_MetaData ex_world ex_plugin
     = (Inr (), ex_world_loaded, ex_plugin_loaded)"
  by (simp add: ex_defs op_defs)

lemma ex_load_fail:
  "load ex_sha256 ex_loader_fail ex_MetaData ex_world ex_plugin
     = (Inl (LoadException ''SyntaxError''), ex_world_failed, ex_plugin_failed)"
  by (simp add: ex_defs op_defs)

lemma ex_load_instance_fail:
  "load_instance ex_sha256 ex_loader_fail ex_MetaData ex_world
       (ex_plugin\<lparr>newly_loaded_module := [''stale'']\<rparr>)
     = (Inl (LoadException ''SyntaxError''), ex_world_failed, ex_plugin_failed)"
  by (simp add: ex_defs op_defs)

lemma ex_unload_loaded:
  "unload ex_world_loaded ex_plugin_loaded
     = (Inr (), evict (repr ex_plugin_loaded) [''a'', ''dep''] ex_world_loaded,
        ex_plugin_loaded\<lparr>newly_loaded_module := [], state := UNLOADING\<rparr>)"
  by (simp add: unload_def assert_state_def set_state_def ex_plugin_loaded_def)

lemma ex_reload_ok:
  "reload ex_sha256 ex_loader_ok ex_MetaData ex_world_modified ex_plugin_loaded
     = (Inr (),
        fst (snd (reload ex_sha256 ex_loader_ok ex_MetaData ex_world_modified ex_plugin_loaded)),
        snd (snd (reload ex_sha256 ex_loader_ok ex_MetaData ex_world_modified ex_plugin_loaded)))"
  by (simp add: ex_defs op_defs)

section \<open>The claims\<close>

text \<open>
  Claim C1. Whatever \<open>load_source\<close> does, and whether it returns a module or raises
  (\<open>r\<close> is any outcome), after \<open>load_instance\<close> the world is the one the
  primitive left, and the identifiers stored in \<open>newly_loaded_module\<close> are exactly
  the keys of \<open>sys.modules\<close> after the load minus the keys in the snapshot taken
  before it. The right-hand side does not mention the list stored before the call: the
  old value is replaced, not extended.
\<close>

theorem performLoad_introduced_keys_exact:
  assumes "load_instance digest load_source MetaData w p = (r, w', p')"
  shows "w' = snd (load_source (file_path p) w)
       \<and> set (newly_loaded_module p')
           = set (dict_keys (sys_modules w')) - set (dict_keys (sys_modules w))"
proof (cases rule: load_instance_cases[of load_source p w])
  case (fail e w1)
  from assms load_instance_fail[where load_source=load_source and p=p and w=w and digest=digest and MetaData=MetaData, OF fail] fail show ?thesis by auto
next
  case (ok m w1)
  from assms load_instance_ok[where load_source=load_source and p=p and w=w and digest=digest and MetaData=MetaData, OF ok] ok show ?thesis by auto
qed

theorem performLoad_introduced_keys_exact_witness:
  "load_instance ex_sha256 ex_loader_fail ex_MetaData ex_world
       (ex_plugin\<lparr>newly_loaded_module := [''stale'']\<rparr>)
     = (Inl (LoadException ''SyntaxError''), ex_world_failed, ex_plugin_failed)
   \<and> set (newly_loaded_module ex_plugin_failed)
       = set (dict_keys (sys_modules ex_world_failed)) - set (dict_keys (sys_modules ex_world))
   \<and> newly_loaded_module ex_plugin_failed = [''dep'']"
  using performLoad_introduced_keys_exact[OF ex_load_instance_fail] ex_load_instance_fail
  by (simp add: ex_plugin_failed_def)

text \<open>
  Claim C2. For a plugin in state \<open>UNINITIALIZED\<close>, \<open>LOADED\<close> or
  \<open>READY\<close>, \<open>unload\<close> returns normally, no identifier that was in
  \<open>newly_loaded_module\<close> before the call is a key of \<open>sys.modules\<close> afterwards,
  and \<open>newly_loaded_module\<close> is empty afterwards.
\<close>

theorem unload_evicts_introduced_keys:
  assumes "state p \<in> {UNINITIALIZED, LOADED, READY}"
    and "unload w p = (r, w', p')"
  shows "r = Inr ()
       \<and> set (newly_loaded_module p) \<inter> set (dict_keys (sys_modules w')) = {}
       \<and> newly_loaded_module p' = []"
  using assms(2) unfolding unload_ok[OF assms(1)]
  by (auto simp: evict_sys_modules dict_keys_def)

theorem unload_evicts_introduced_keys_witness:
  "state ex_plugin_loaded \<in> {UNINITIALIZED, LOADED, READY}
   \<and> unload ex_world_loaded ex_plugin_loaded
       = (Inr (), evict (repr ex_plugin_loaded) [''a'', ''dep''] ex_world_loaded,
          ex_plugin_loaded\<lparr>newly_loaded_module := [], state := UNLOADING\<rparr>)
   \<and> set [''a'', ''dep'']
        \<inter> set (dict_keys (sys_modules
                 (evict (repr ex_plugin_loaded) [''a'', ''dep''] ex_world_loaded))) = {}
   \<and> dict_keys (sys_modules (evict (repr ex_plugin_loaded) [''a'', ''dep''] ex_world_loaded))
       = [''sys'']"
proof -
  have st: "state ex_plugin_loaded \<in> {UNINITIALIZED, LOADED, READY}"
    by (simp add: ex_plugin_loaded_def)
  have keys: "newly_loaded_module ex_plugin_loaded = [''a'', ''dep'']"
    by (simp add: ex_plugin_loaded_def)
  have rest: "dict_keys (sys_modules (evict (repr ex_plugin_loaded) [''a'', ''dep''] ex_world_loaded))
                = [''sys'']"
    by (simp add: ex_defs op_defs)
  from unload_evicts_introduced_keys[OF st ex_unload_loaded] st ex_unload_loaded keys rest
  show ?thesis by simp
qed

text \<open>
  Claim C3, as the code has it. When \<open>load_source\<close> raises \<open>e\<close> inside
  \<open>load\<close> (from \<open>UNINITIALIZED\<close>) or \<open>reload\<close> (from \<open>LOADED\<close> or
  \<open>READY\<close>), the caller receives \<open>e\<close> itself, the world is the one the primitive
  left, \<open>newly_loaded_module\<close> is the registry difference, and
  \<open>module_instance\<close> and \<open>metadata\<close> are unchanged. The field
  \<open>file_hash\<close> is not left as it was: it was assigned before the load attempt and
  holds the digest of the file as it was when the call began (\<open>None\<close> for a
  missing file).
\<close>

theorem load_failure_propagates:
  assumes "load_source (file_path p) w = (Inl e, w')"
    and "(state p = UNINITIALIZED \<and> load digest load_source MetaData w p = (r, wr, p'))
       \<or> (state p \<in> {LOADED, READY} \<and> reload digest load_source MetaData w p = (r, wr, p'))"
  shows "r = Inl e \<and> wr = w'
       \<and> set (newly_loaded_module p')
           = set (dict_keys (sys_modules w')) - set (dict_keys (sys_modules w))
       \<and> module_instance p' = module_instance p
       \<and> metadata p' = metadata p
       \<and> file_hash p' = map_option digest (files w (file_path p))"
  using assms(2) load_instance_fail[where load_source=load_source and p=p and w=w and digest=digest and MetaData=MetaData, OF assms(1)]
  by (auto simp: load_def reload_def assert_state_def get_file_hash_eq)

theorem load_failure_propagates_witness:
  "ex_loader_fail (file_path ex_plugin) ex_world
     = (Inl (LoadException ''SyntaxError''), ex_world_failed)
   \<and> state ex_plugin = UNINITIALIZED
   \<and> load ex_sha256 ex_loader_fail ex_MetaData ex_world ex_plugin
       = (Inl (LoadException ''SyntaxError''), ex_world_failed, ex_plugin_failed)
   \<and> newly_loaded_module ex_plugin_failed = [''dep'']
   \<and> module_instance ex_plugin_failed = module_instance ex_plugin
   \<and> metadata ex_plugin_failed = metadata ex_plugin
   \<and> file_hash ex_plugin_failed = Some (ex_sha256 ''print(1)'')"
proof -
  have h1: "ex_loader_fail (file_path ex_plugin) ex_world
              = (Inl (LoadException ''SyntaxError''), ex_world_failed)"
    by (simp add: ex_defs)
  have st: "state ex_plugin = UNINITIALIZED" by (simp add: ex_defs)
  have h2: "(state ex_plugin = UNINITIALIZED
              \<and> load ex_sha256 ex_loader_fail ex_MetaData ex_world ex_plugin
                  = (Inl (LoadException ''SyntaxError''), ex_world_failed, ex_plugin_failed))
          \<or> (state ex_plugin \<in> {LOADED, READY}
              \<and> reload ex_sha256 ex_loader_fail ex_MetaData ex_world ex_plugin
                  = (Inl (LoadException ''SyntaxError''), ex_world_failed, ex_plugin_failed))"
    using st ex_load_fail by simp
  have files: "files ex_world (file_path ex_plugin) = Some ''print(1)''"
    by (simp add: ex_defs)
  have new: "newly_loaded_module ex_plugin_failed = [''dep'']"
    by (simp add: ex_defs)
  from load_failure_propagates[OF h1 h2] h1 st ex_load_fail files new
  show ?thesis by simp
qed

text \<open>
  The claim as the specification words it also has \<open>file_hash\<close> unchanged after a
  failed load. On the concrete plugin the failed load leaves a hash where there was none.
\<close>

theorem load_failure_file_hash_counterexample:
  "ex_loader_fail (file_path ex_plugin) ex_world
     = (Inl (LoadException ''SyntaxError''), ex_world_failed)
   \<and> load ex_sha256 ex_loader_fail ex_MetaData ex_world ex_plugin
       = (Inl (LoadException ''SyntaxError''), ex_world_failed, ex_plugin_failed)
   \<and> file_hash ex_plugin = None
   \<and> file_hash ex_plugin_failed = Some ''sha256:print(1)''
   \<and> file_hash ex_plugin_failed \<noteq> file_hash ex_plugin"
  using ex_load_fail by (simp add: ex_defs)

text \<open>
  Claim C4. For a plugin in state \<open>UNINITIALIZED\<close>, \<open>LOADED\<close> or
  \<open>READY\<close> whose \<open>newly_loaded_module\<close> has no repeated identifier (it is a
  list of dictionary keys), \<open>unload\<close> returns normally and ends in
  \<open>UNLOADING\<close>; the registry afterwards is the registry before without every entry
  whose key was recorded, so each recorded identifier that was present is removed; and
  the log grows by exactly one record per recorded identifier, in order: a debug record
  if the identifier was present, a critical record if it was missing.
\<close>

theorem unload_tolerates_missing:
  assumes "state p \<in> {UNINITIALIZED, LOADED, READY}"
    and "distinct (newly_loaded_module p)"
    and "unload w p = (r, w', p')"
  shows "r = Inr () \<and> state p' = UNLOADING
       \<and> sys_modules w' = filter (\<lambda>kv. fst kv \<notin> set (newly_loaded_module p)) (sys_modules w)
       \<and> log w' = log w @ map (eviction_record (repr p) w) (newly_loaded_module p)"
  using assms(3) unfolding unload_ok[OF assms(1)]
  by (auto simp: evict_sys_modules evict_log[OF assms(2)])

theorem unload_tolerates_missing_witness:
  "state ex_plugin_abc \<in> {UNINITIALIZED, LOADED, READY}
   \<and> distinct (newly_loaded_module ex_plugin_abc)
   \<and> newly_loaded_module ex_plugin_abc = [''A'', ''B'', ''C'']
   \<and> dict_keys (sys_modules ex_world_abc) = [''sys'', ''A'', ''C'']
   \<and> unload ex_world_abc ex_plugin_abc
       = (Inr (),
          \<lparr>files = Map.empty, sys_modules = [(''sys'', Module [])],
           log = [(DEBUG, Removed_module ''A'' (''a.py'', ''plugins/a.py'', READY)),
                  (CRITICAL, Module_not_found ''B'' (''a.py'', ''plugins/a.py'', READY)),
                  (DEBUG, Removed_module ''C'' (''a.py'', ''plugins/a.py'', READY))]\<rparr>,
          ex_plugin_abc\<lparr>newly_loaded_module := [], state := UNLOADING\<rparr>)"
proof -
  have st: "state ex_plugin_abc \<in> {UNINITIALIZED, LOADED, READY}"
    by (simp add: ex_defs)
  have d: "distinct (newly_loaded_module ex_plugin_abc)"
    by (simp add: ex_defs)
  have u: "unload ex_world_abc ex_plugin_abc
             = (Inr (), evict (repr ex_plugin_abc) (newly_loaded_module ex_plugin_abc) ex_world_abc,
                ex_plugin_abc\<lparr>newly_loaded_module := [], state := UNLOADING\<rparr>)"
    using st by (simp add: unload_def assert_state_def set_state_def)
  have files: "files (evict (repr ex_plugin_abc) (newly_loaded_module ex_plugin_abc) ex_world_abc)
                 = Map.empty"
    by (simp add: ex_defs op_defs)
  from unload_tolerates_missing[OF st d u]
  have "sys_modules (evict (repr ex_plugin_abc) (newly_loaded_module ex_plugin_abc) ex_world_abc)
          = [(''sys'', Module [])]"
    and "log (evict (repr ex_plugin_abc) (newly_loaded_module ex_plugin_abc) ex_world_abc)
          = [(DEBUG, Removed_module ''A'' (''a.py'', ''plugins/a.py'', READY)),
             (CRITICAL, Module_not_found ''B'' (''a.py'', ''plugins/a.py'', READY)),
             (DEBUG, Removed_module ''C'' (''a.py'', ''plugins/a.py'', READY))]"
    by (simp_all add: ex_defs eviction_record_def dict_keys_def repr_def)
  with files have "evict (repr ex_plugin_abc) (newly_loaded_module ex_plugin_abc) ex_world_abc
      = \<lparr>files = Map.empty, sys_modules = [(''sys'', Module [])],
           log = [(DEBUG, Removed_module ''A'' (''a.py'', ''plugins/a.py'', READY)),
                  (CRITICAL, Module_not_found ''B'' (''a.py'', ''plugins/a.py'', READY)),
                  (DEBUG, Removed_module ''C'' (''a.py'', ''plugins/a.py'', READY))]\<rparr>"
    by (intro world.equality) simp_all
  with st d u show ?thesis by (simp add: ex_defs dict_keys_def)
qed

text \<open>
  Claim C5. \<open>load\<close> on a plugin in state \<open>READY\<close> raises
  \<open>IllegalCallError\<close> and returns the world and the plugin as they were: no
  registry entry, no log record and no plugin field is changed.
\<close>

theorem load_in_ready_illegal:
  assumes "state p = READY"
  shows "load digest load_source MetaData w p = (Inl IllegalCallError, w, p)"
  using assms by (simp add: load_def assert_state_def)

theorem load_in_ready_illegal_witness:
  "state (ex_plugin_loaded\<lparr>state := READY\<rparr>) = READY
   \<and> load ex_sha256 ex_loader_ok ex_MetaData ex_world_loaded (ex_plugin_loaded\<lparr>state := READY\<rparr>)
       = (Inl IllegalCallError, ex_world_loaded, ex_plugin_loaded\<lparr>state := READY\<rparr>)"
  using load_in_ready_illegal[of "ex_plugin_loaded\<lparr>state := READY\<rparr>" ex_sha256 ex_loader_ok
          ex_MetaData ex_world_loaded]
  by simp

text \<open>
  Claim C6. After a successful \<open>load\<close> or \<open>reload\<close>, \<open>file_hash\<close> is
  the SHA-256 hex digest of the whole contents that the source file had when the call
  began (the hash is taken before \<open>load_source\<close> runs), and \<open>None\<close> if the
  file did not exist then.
\<close>

theorem load_file_hash_is_digest:
  assumes "load digest load_source MetaData w p = (Inr (), w', p')
         \<or> reload digest load_source MetaData w p = (Inr (), w', p')"
  shows "file_hash p' = map_option digest (files w (file_path p))"
proof (cases rule: load_instance_cases[of load_source p w])
  case (fail e w1)
  from assms load_instance_fail[where load_source=load_source and p=p and w=w and digest=digest and MetaData=MetaData, OF fail] show ?thesis
    by (auto simp: load_def reload_def assert_state_def split: if_splits)
next
  case (ok m w1)
  from assms load_instance_ok[where load_source=load_source and p=p and w=w and digest=digest and MetaData=MetaData, OF ok] show ?thesis
    by (auto simp: load_def reload_def assert_state_def set_state_def get_file_hash_eq
             split: if_splits)
qed

theorem load_file_hash_is_digest_witness:
  "load ex_sha256 ex_loader_ok ex_MetaData ex_world ex_plugin
     = (Inr (), ex_world_loaded, ex_plugin_loaded)
   \<and> files ex_world (file_path ex_plugin) = Some ''print(1)''
   \<and> file_hash ex_plugin_loaded = Some (ex_sha256 ''print(1)'')"
proof -
  have files: "files ex_world (file_path ex_plugin) = Some ''print(1)''"
    by (simp add: ex_defs)
  from load_file_hash_is_digest[OF disjI1[OF ex_load_ok]] ex_load_ok files
  show ?thesis by simp
qed

text \<open>
  Claim C7. A successful \<open>reload\<close> of a plugin in state \<open>LOADED\<close> or
  \<open>READY\<close> leaves the plugin in the state it had.
\<close>

theorem reload_keeps_state:
  assumes "state p \<in> {LOADED, READY}"
    and "reload digest load_source MetaData w p = (Inr (), w', p')"
  shows "state p' = state p"
proof (cases rule: load_instance_cases[of load_source p w])
  case (fail e w1)
  from assms load_instance_fail[where load_source=load_source and p=p and w=w and digest=digest and MetaData=MetaData, OF fail] show ?thesis
    by (auto simp: reload_def assert_state_def)
next
  case (ok m w1)
  from assms load_instance_ok[where load_source=load_source and p=p and w=w and digest=digest and MetaData=MetaData, OF ok] show ?thesis
    by (auto simp: reload_def assert_state_def)
qed

theorem reload_keeps_state_witness:
  "state ex_plugin_loaded \<in> {LOADED, READY}
   \<and> fst (reload ex_sha256 ex_loader_ok ex_MetaData ex_world_modified ex_plugin_loaded) = Inr ()
   \<and> state (snd (snd (reload ex_sha256 ex_loader_ok ex_MetaData ex_world_modified ex_plugin_loaded)))
       = LOADED"
proof -
  have st: "state ex_plugin_loaded \<in> {LOADED, READY}" by (simp add: ex_defs)
  have l: "state ex_plugin_loaded = LOADED" by (simp add: ex_defs)
  have ok: "fst (reload ex_sha256 ex_loader_ok ex_MetaData ex_world_modified ex_plugin_loaded) = Inr ()"
    by (subst ex_reload_ok) simp
  from reload_keeps_state[OF st ex_reload_ok] st l ok show ?thesis by simp
qed

text \<open>
  Claim C8. \<open>file_changed\<close> changes neither the world nor the plugin, and its
  result is determined by the bytes of the file and the stored hash: two calls that see
  the same bytes and the same stored hash return the same boolean. It is true exactly
  when the recomputed digest differs from the stored hash: after the bytes were changed
  to contents with another digest it is true, with the loaded contents it is false, and
  a file that has disappeared counts as changed.
\<close>

theorem file_changed_stable:
  "(files wb (file_path pb) = files wa (file_path pa) \<and> file_hash pb = file_hash pa
      \<longrightarrow> file_changed digest wb pb = file_changed digest wa pa)
   \<and> (file_changed digest w p \<longleftrightarrow> map_option digest (files w (file_path p)) \<noteq> file_hash p)
   \<and> (file_hash p = Some (digest c) \<and> files w (file_path p) = Some c' \<and> digest c' \<noteq> digest c
      \<longrightarrow> file_changed digest w p)
   \<and> (file_hash p = Some (digest c) \<and> files w (file_path p) = Some c
      \<longrightarrow> \<not> file_changed digest w p)
   \<and> (file_hash p \<noteq> None \<and> files w (file_path p) = None \<longrightarrow> file_changed digest w p)"
  by (auto simp: file_changed_def get_file_hash_eq)

theorem file_changed_stable_witness:
  "file_hash ex_plugin_loaded = Some (ex_sha256 ''print(1)'')
   \<and> files ex_world_loaded (file_path ex_plugin_loaded) = Some ''print(1)''
   \<and> files ex_world_modified (file_path ex_plugin_loaded) = Some ''print(2)''
   \<and> ex_sha256 ''print(2)'' \<noteq> ex_sha256 ''print(1)''
   \<and> \<not> file_changed ex_sha256 ex_world_loaded ex_plugin_loaded
   \<and> file_changed ex_sha256 ex_world_modified ex_plugin_loaded"
proof -
  have a: "file_hash ex_plugin_loaded = Some (ex_sha256 ''print(1)'')"
    and b: "files ex_world_loaded (file_path ex_plugin_loaded) = Some ''print(1)''"
    and c: "files ex_world_modified (file_path ex_plugin_loaded) = Some ''print(2)''"
    and d: "ex_sha256 ''print(2)'' \<noteq> ex_sha256 ''print(1)''"
    by (simp_all add: ex_defs)
  from file_changed_stable[of ex_world_modified ex_plugin_loaded ex_world_modified
         ex_plugin_loaded ex_sha256 ex_world_modified ex_plugin_loaded "''print(1)''" "''print(2)''"]
       a c d
  have changed: "file_changed ex_sha256 ex_world_modified ex_plugin_loaded" by blast
  from file_changed_stable[of ex_world_loaded ex_plugin_loaded ex_world_loaded
         ex_plugin_loaded ex_sha256 ex_world_loaded ex_plugin_loaded "''print(1)''" "''print(1)''"]
       a b
  have same: "\<not> file_changed ex_sha256 ex_world_loaded ex_plugin_loaded" by blast
  from a b c d changed same show ?thesis by blast
qed

text \<open>
  Claim C9. \<open>ready\<close> from \<open>LOADED\<close> or \<open>READY\<close> succeeds and ends in
  \<open>READY\<close>. The listener collection afterwards is the collection before followed by
  the listeners the specification describes, so nothing is removed; for every event of
  the catalog that declares a default handler name for which the loaded module has a
  callable attribute of that name, a listener with that callback at the default priority
  is in the collection; and a second \<open>ready\<close> appends the same listeners once
  more.
\<close>

theorem ready_adds_default_listeners:
  assumes "state p \<in> {LOADED, READY}"
  shows "\<exists>p'. ready evs prio p = Inr p' \<and> state p' = READY
      \<and> plugin_registry p' = plugin_registry p @ default_listeners_spec evs prio p
      \<and> (\<forall>ev name. ev \<in> set evs \<and> default_method_name ev = Some name
             \<and> callable (getattr_default (module_instance p) name)
           \<longrightarrow> (ev, EventListener (file_path p) (getattr_default (module_instance p) name) prio)
                 \<in> set (plugin_registry p'))
      \<and> (\<exists>p''. ready evs prio p' = Inr p''
             \<and> plugin_registry p'' = plugin_registry p @ default_listeners_spec evs prio p
                                      @ default_listeners_spec evs prio p)"
proof -
  let ?p' = "set_state READY (register_default_listeners evs prio p)"
  let ?p'' = "set_state READY (register_default_listeners evs prio ?p')"
  have r1: "ready evs prio p = Inr ?p'"
    using assms by (simp add: ready_def assert_state_def)
  have st: "state ?p' = READY" by (simp add: set_state_def)
  have reg: "plugin_registry ?p' = plugin_registry p @ default_listeners_spec evs prio p"
    by (simp add: set_state_def register_default_listeners_registry)
  have mem: "(ev, EventListener (file_path p) (getattr_default (module_instance p) name) prio)
               \<in> set (default_listeners_spec evs prio p)"
    if "ev \<in> set evs" "default_method_name ev = Some name"
       "callable (getattr_default (module_instance p) name)" for ev name
    using that unfolding default_listeners_spec_def
    by (auto intro!: bexI[where x=ev])
  have r2: "ready evs prio ?p' = Inr ?p''"
    by (simp add: ready_def assert_state_def set_state_def)
  have same: "default_listeners_spec evs prio ?p' = default_listeners_spec evs prio p"
    by (rule default_listeners_spec_frame)
       (simp_all add: set_state_def register_default_listeners_frame)
  have "plugin_registry ?p'' = plugin_registry ?p' @ default_listeners_spec evs prio ?p'"
    unfolding set_state_def[of READY "register_default_listeners evs prio ?p'"]
    by (simp add: register_default_listeners_registry)
  then have reg2: "plugin_registry ?p'' = plugin_registry p @ default_listeners_spec evs prio p
                                      @ default_listeners_spec evs prio p"
    by (simp only: reg same append_assoc)
  from r1 st reg mem r2 reg2 show ?thesis
    by (intro exI[of _ ?p'] conjI allI impI exI[of _ ?p'']) auto
qed

theorem ready_adds_default_listeners_witness:
  "state ex_plugin_loaded \<in> {LOADED, READY}
   \<and> ready ex_events 1000 ex_plugin_loaded
       = Inr (ex_plugin_loaded\<lparr>state := READY, plugin_registry := [ex_on_load_listener]\<rparr>)
   \<and> ready ex_events 1000
         (ex_plugin_loaded\<lparr>state := READY, plugin_registry := [ex_on_load_listener]\<rparr>)
       = Inr (ex_plugin_loaded\<lparr>state := READY,
                               plugin_registry := [ex_on_load_listener, ex_on_load_listener]\<rparr>)"
proof -
  have st: "state ex_plugin_loaded \<in> {LOADED, READY}" by (simp add: ex_defs)
  have spec: "default_listeners_spec ex_events 1000 ex_plugin_loaded = [ex_on_load_listener]"
    by (simp add: default_listeners_spec_def ex_defs)
  have reg: "plugin_registry ex_plugin_loaded = []" by (simp add: ex_defs)
  have r1: "ready ex_events 1000 ex_plugin_loaded
       = Inr (ex_plugin_loaded\<lparr>state := READY, plugin_registry := [ex_on_load_listener]\<rparr>)"
    by (simp add: ex_defs op_defs Let_def)
  have r2: "ready ex_events 1000
         (ex_plugin_loaded\<lparr>state := READY, plugin_registry := [ex_on_load_listener]\<rparr>)
       = Inr (ex_plugin_loaded\<lparr>state := READY,
                               plugin_registry := [ex_on_load_listener, ex_on_load_listener]\<rparr>)"
    by (simp add: ex_defs op_defs Let_def)
  from ready_adds_default_listeners[OF st, of ex_events 1000] st r1 r2
  show ?thesis by simp
qed

text \<open>
  Claim C10. \<open>get_metadata\<close> raises \<open>IllegalCallError\<close> on a freshly created
  plugin, on any plugin whose \<open>metadata\<close> is unset, and still after a load step that
  failed on such a plugin. After a successful \<open>load\<close> or \<open>reload\<close> it returns
  the object that \<open>MetaData\<close> built in that load from the plugin and the
  \<open>PLUGIN_METADATA\<close> attribute of the module just loaded.
\<close>

theorem get_metadata_needs_load:
  fixes p :: "'m plugin"
  shows "get_metadata (init path name :: 'm plugin) = Inl IllegalCallError
   \<and> (metadata p = None \<longrightarrow> get_metadata p = Inl IllegalCallError)
   \<and> (metadata p = None \<and> load_instance digest load_source MetaData w p = (Inl e, w', p')
        \<longrightarrow> get_metadata p' = Inl IllegalCallError)
   \<and> (load_source (file_path p) w = (Inr m, wl)
       \<and> (load digest load_source MetaData w p = (Inr (), w', p')
          \<or> reload digest load_source MetaData w p = (Inr (), w', p'))
        \<longrightarrow> get_metadata p'
             = Inr (MetaData (p'\<lparr>metadata := metadata p, plugin_registry := plugin_registry p,
                                 state := state p\<rparr>)
                             (getattr_default (Some m) ''PLUGIN_METADATA'')))"
proof (intro conjI impI)
  show "get_metadata (init path name :: 'm plugin) = Inl IllegalCallError"
    by (simp add: get_metadata_def init_def)
  show "metadata p = None \<Longrightarrow> get_metadata p = Inl IllegalCallError"
    by (simp add: get_metadata_def)
  show "get_metadata p' = Inl IllegalCallError"
    if "metadata p = None \<and> load_instance digest load_source MetaData w p = (Inl e, w', p')"
  proof (cases rule: load_instance_cases[of load_source p w])
    case (fail e1 w2)
    from that load_instance_fail[where load_source=load_source and p=p and w=w and digest=digest and MetaData=MetaData, OF fail] show ?thesis
      by (auto simp: get_metadata_def)
  next
    case (ok m1 w2)
    from that load_instance_ok[where load_source=load_source and p=p and w=w and digest=digest and MetaData=MetaData, OF ok] show ?thesis by simp
  qed
  show "get_metadata p'
          = Inr (MetaData (p'\<lparr>metadata := metadata p, plugin_registry := plugin_registry p,
                              state := state p\<rparr>)
                          (getattr_default (Some m) ''PLUGIN_METADATA''))"
    if "load_source (file_path p) w = (Inr m, wl)
        \<and> (load digest load_source MetaData w p = (Inr (), w', p')
           \<or> reload digest load_source MetaData w p = (Inr (), w', p'))"
  proof -
    from that have ok: "load_source (file_path p) w = (Inr m, wl)" by simp
    from that consider
        (by_load) "load digest load_source MetaData w p = (Inr (), w', p')"
      | (by_reload) "reload digest load_source MetaData w p = (Inr (), w', p')"
      by blast
    then show ?thesis
    proof cases
      case by_load
      from load_success[OF by_load] obtain w2 q
        where li: "load_instance digest load_source MetaData w p = (Inr (), w2, q)"
          and p': "p' = q\<lparr>state := LOADED\<rparr>"
        by blast
      from load_instance_success[OF li] ok obtain q_eq: "q = p\<lparr>file_hash := get_file_hash digest w p,
                    old_module_instance := module_instance p,
                    module_instance := Some m,
                    newly_loaded_module :=
                      filter (\<lambda>k. k \<notin> set (dict_keys (sys_modules w))) (dict_keys (sys_modules w2)),
                    metadata := Some (MetaData
                      (p\<lparr>file_hash := get_file_hash digest w p,
                         old_module_instance := module_instance p,
                         module_instance := Some m,
                         newly_loaded_module :=
                           filter (\<lambda>k. k \<notin> set (dict_keys (sys_modules w))) (dict_keys (sys_modules w2))\<rparr>)
                      (getattr_default (Some m) ''PLUGIN_METADATA'')),
                    plugin_registry := []\<rparr>"
        by auto
      show ?thesis unfolding p' by (subst (1 2) q_eq) (simp add: get_metadata_def)
    next
      case by_reload
      from reload_success[OF by_reload] obtain w2
        where li: "load_instance digest load_source MetaData w p = (Inr (), w2, p')"
        by blast
      from load_instance_success[OF li] ok obtain q_eq: "p' = p\<lparr>file_hash := get_file_hash digest w p,
                    old_module_instance := module_instance p,
                    module_instance := Some m,
                    newly_loaded_module :=
                      filter (\<lambda>k. k \<notin> set (dict_keys (sys_modules w))) (dict_keys (sys_modules w2)),
                    metadata := Some (MetaData
                      (p\<lparr>file_hash := get_file_hash digest w p,
                         old_module_instance := module_instance p,
                         module_instance := Some m,
                         newly_loaded_module :=
                           filter (\<lambda>k. k \<notin> set (dict_keys (sys_modules w))) (dict_keys (sys_modules w2))\<rparr>)
                      (getattr_default (Some m) ''PLUGIN_METADATA'')),
                    plugin_registry := []\<rparr>"
        by auto
      show ?thesis by (subst (1 2) q_eq) (simp add: get_metadata_def)
    qed
  qed
qed

theorem get_metadata_needs_load_witness:
  "get_metadata ex_plugin = Inl IllegalCallError
   \<and> ex_loader_ok (file_path ex_plugin) ex_world
       = (Inr ex_module, fst (snd (load_instance ex_sha256 ex_loader_ok ex_MetaData ex_world ex_plugin)))
   \<and> load ex_sha256 ex_loader_ok ex_MetaData ex_world ex_plugin
       = (Inr (), ex_world_loaded, ex_plugin_loaded)
   \<and> get_metadata ex_plugin_loaded = Inr (''a.py'', PyData ''id=a'')"
proof -
  note inst = get_metadata_needs_load[where path="''plugins/a.py''" and name="''a.py''"
      and p=ex_plugin and digest=ex_sha256 and load_source=ex_loader_ok
      and MetaData=ex_MetaData and w=ex_world and w'=ex_world_loaded and p'=ex_plugin_loaded
      and m=ex_module and e=KeyError
      and wl="fst (snd (load_instance ex_sha256 ex_loader_ok ex_MetaData ex_world ex_plugin))"]
  have ld: "ex_loader_ok (file_path ex_plugin) ex_world
       = (Inr ex_module, fst (snd (load_instance ex_sha256 ex_loader_ok ex_MetaData ex_world ex_plugin)))"
    by (simp add: ex_defs op_defs)
  have md: "ex_MetaData
              (ex_plugin_loaded\<lparr>metadata := metadata ex_plugin,
                                 plugin_registry := plugin_registry ex_plugin,
                                 state := state ex_plugin\<rparr>)
              (getattr_default (Some ex_module) ''PLUGIN_METADATA'')
            = (''a.py'', PyData ''id=a'')"
    by (simp add: ex_defs)
  from inst ld ex_load_ok md show ?thesis
    by (simp add: ex_plugin_def)
qed

end
